theory Spec2Isabelle
  imports Complex_Main "HOL-Library.Sublist"
begin

section \<open>Shared Python conventions\<close>

text \<open>
  The three tools of the repository are Python modules.  Python integers are unbounded
  (\<open>int\<close>); Python floats are modelled by \<open>real\<close>, that is, every float operation is
  taken to be exact.  A raised exception is a value \<open>Inl e\<close> of a sum type.
\<close>

datatype py_error = ZeroDivisionError

type_synonym point = "int \<times> int"

text \<open>\<^verbatim>\<open>int(x)\<close> on a float truncates towards zero.\<close>

definition py_int :: "real \<Rightarrow> int" where
  "py_int r = (if 0 \<le> r then \<lfloor>r\<rfloor> else \<lceil>r\<rceil>)"

text \<open>\<^verbatim>\<open>a / b\<close> on Python numbers raises \<^verbatim>\<open>ZeroDivisionError\<close> when \<open>b\<close> is zero.\<close>

definition py_truediv :: "real \<Rightarrow> real \<Rightarrow> py_error + real" where
  "py_truediv a b = (if b = 0 then Inl ZeroDivisionError else Inr (a / b))"

section \<open>Facial nerve analyzer: \<^verbatim>\<open>src/projects/facial_nerve.py\<close>\<close>

subsection \<open>Data\<close>

text \<open>
  The keys of the dict \<^verbatim>\<open>FACIAL_LANDMARKS\<close>.  Every snapshot \<^verbatim>\<open>coords\<close> is built by the
  loop of lines 58-60 over all nine keys, and the baseline is only ever assigned such a
  snapshot (line 70), so a snapshot is a total function on the keys.
\<close>

datatype landmark_name =
    mouth_left | mouth_right
  | eyebrow_left | eyebrow_right
  | eye_top_left | eye_bottom_left
  | eye_top_right | eye_bottom_right
  | nose_tip

fun FACIAL_LANDMARKS :: "landmark_name \<Rightarrow> nat" where
  "FACIAL_LANDMARKS mouth_left = 291"
| "FACIAL_LANDMARKS mouth_right = 61"
| "FACIAL_LANDMARKS eyebrow_left = 334"
| "FACIAL_LANDMARKS eyebrow_right = 105"
| "FACIAL_LANDMARKS eye_top_left = 386"
| "FACIAL_LANDMARKS eye_bottom_left = 374"
| "FACIAL_LANDMARKS eye_top_right = 159"
| "FACIAL_LANDMARKS eye_bottom_right = 145"
| "FACIAL_LANDMARKS nose_tip = 1"

type_synonym snapshot = "landmark_name \<Rightarrow> point"

text \<open>
  One detected face: \<^verbatim>\<open>landmarks.landmark[idx]\<close> has the normalised coordinates
  \<^verbatim>\<open>(lm.x, lm.y)\<close>.  The detector itself is external; a frame carries its answer
  (\<^verbatim>\<open>results.multi_face_landmarks\<close>, empty when no face is found) and the image size.
\<close>

type_synonym landmarks = "nat \<Rightarrow> real \<times> real"

record video_frame =
  frame_w :: int
  frame_h :: int
  multi_face_landmarks :: "landmarks list"

text \<open>
  Session state of the tool: \<^verbatim>\<open>self.task\<close> of the transformer and
  \<^verbatim>\<open>st.session_state.baseline_coords\<close> (the Baseline Store, \<open>None\<close> when empty).
\<close>

record facial_state =
  task :: string
  baseline_coords :: "snapshot option"

text \<open>
  What \<^verbatim>\<open>transform\<close> writes onto the image with \<^verbatim>\<open>cv2.putText\<close>, with the numbers
  before they are formatted.  The landmark dots of lines 63-67 carry no message and are
  left out.
\<close>

datatype overlay_text =
    BaselineSetText
  | SmileSymmetryText real
  | EyebrowSymmetryText real
  | EyeClosureHeaderText
  | EyeClosureText real real

subsection \<open>Operations\<close>

definition set_task :: "facial_state \<Rightarrow> string \<Rightarrow> facial_state" where
  "set_task st t =
     (let st1 = st\<lparr>task := t\<rparr>
      in if t = ''Set Baseline'' then st1\<lparr>baseline_coords := None\<rparr> else st1)"

definition get_coords :: "landmarks \<Rightarrow> nat \<Rightarrow> int \<Rightarrow> int \<Rightarrow> point" where
  "get_coords lms idx w h =
     (let lm = lms idx
      in (py_int (fst lm * real_of_int w), py_int (snd lm * real_of_int h)))"

definition get_dist :: "point \<Rightarrow> point \<Rightarrow> real" where
  "get_dist p1 p2 = sqrt (real_of_int ((fst p1 - fst p2)\<^sup>2 + (snd p1 - snd p2)\<^sup>2))"

text \<open>Lines 58-60: the snapshot of a frame in which the face \<open>lms\<close> was detected.\<close>

definition frame_coords :: "landmarks \<Rightarrow> video_frame \<Rightarrow> snapshot" where
  "frame_coords lms frame =
     (\<lambda>name. get_coords lms (FACIAL_LANDMARKS name) (frame_w frame) (frame_h frame))"

text \<open>The metric pairs \<open>(left, right)\<close> of lines 78-79, 87-88 and 96-97.\<close>

definition smile_pair :: "snapshot \<Rightarrow> snapshot \<Rightarrow> int \<times> int" where
  "smile_pair baseline coords =
     (\<bar>fst (coords mouth_left) - fst (baseline mouth_left)\<bar>,
      \<bar>fst (coords mouth_right) - fst (baseline mouth_right)\<bar>)"

definition eyebrow_pair :: "snapshot \<Rightarrow> snapshot \<Rightarrow> int \<times> int" where
  "eyebrow_pair baseline coords =
     (snd (baseline eyebrow_left) - snd (coords eyebrow_left),
      snd (baseline eyebrow_right) - snd (coords eyebrow_right))"

definition eye_pair :: "snapshot \<Rightarrow> real \<times> real" where
  "eye_pair coords =
     (get_dist (coords eye_top_left) (coords eye_bottom_left),
      get_dist (coords eye_top_right) (coords eye_bottom_right))"

text \<open>The expression \<^verbatim>\<open>min(l, r) / max(l, r) * 100\<close> of lines 82, 91 and 100.\<close>

definition symmetry :: "real \<Rightarrow> real \<Rightarrow> py_error + real" where
  "symmetry l r =
     (case py_truediv (min l r) (max l r) of
        Inl e \<Rightarrow> Inl e
      | Inr q \<Rightarrow> Inr (q * 100))"

text \<open>Lines 76-102: the branch on the task once a baseline is present.\<close>

definition score_texts :: "string \<Rightarrow> snapshot \<Rightarrow> snapshot \<Rightarrow> py_error + overlay_text list" where
  "score_texts t baseline coords =
     (if t = ''Smile'' then
        (case smile_pair baseline coords of (left_dist, right_dist) \<Rightarrow>
           if left_dist + right_dist > 10 then
             (case symmetry (real_of_int left_dist) (real_of_int right_dist) of
                Inl e \<Rightarrow> Inl e
              | Inr s \<Rightarrow> Inr [SmileSymmetryText s])
           else Inr [])
      else if t = ''Raise Eyebrows'' then
        (case eyebrow_pair baseline coords of (left_raise, right_raise) \<Rightarrow>
           if left_raise + right_raise > 5 then
             (case symmetry (real_of_int left_raise) (real_of_int right_raise) of
                Inl e \<Rightarrow> Inl e
              | Inr s \<Rightarrow> Inr [EyebrowSymmetryText s])
           else Inr [])
      else if t = ''Close Eyes Tightly'' then
        (case eye_pair coords of (left_opening, right_opening) \<Rightarrow>
           if left_opening + right_opening > 0 then
             (case symmetry left_opening right_opening of
                Inl e \<Rightarrow> Inl e
              | Inr s \<Rightarrow> Inr [EyeClosureHeaderText, EyeClosureText left_opening right_opening])
           else Inr [])
      else Inr [])"

text \<open>
  \<^verbatim>\<open>transform\<close>, lines 47-104: the new state and the texts put on the frame, or the
  exception that leaves the callback.
\<close>

definition transform :: "facial_state \<Rightarrow> video_frame \<Rightarrow> py_error + facial_state \<times> overlay_text list" where
  "transform st frame =
     (case multi_face_landmarks frame of
        [] \<Rightarrow> Inr (st, [])
      | lms # _ \<Rightarrow>
          (let coords = frame_coords lms frame;
               st1 = (if task st = ''Set Baseline'' then st\<lparr>baseline_coords := Some coords\<rparr> else st);
               txt1 = (if task st = ''Set Baseline'' then [BaselineSetText] else [])
           in case baseline_coords st1 of
                None \<Rightarrow> Inr (st1, txt1)
              | Some baseline \<Rightarrow>
                  (case score_texts (task st1) baseline coords of
                     Inl e \<Rightarrow> Inl e
                   | Inr txt2 \<Rightarrow> Inr (st1, txt1 @ txt2))))"

text \<open>The video pipeline calls \<^verbatim>\<open>transform\<close> once per frame, in order.\<close>

fun transform_all :: "facial_state \<Rightarrow> video_frame list \<Rightarrow> py_error + facial_state" where
  "transform_all st [] = Inr st"
| "transform_all st (f # fs) =
     (case transform st f of
        Inl e \<Rightarrow> Inl e
      | Inr (st', _) \<Rightarrow> transform_all st' fs)"

section \<open>Dexterity and tremor analyzer: \<^verbatim>\<open>src/projects/neuro_steady.py\<close>\<close>

subsection \<open>Data\<close>

definition TARGET_POS :: point where
  "TARGET_POS = (320, 240)"

definition TARGET_RADIUS :: int where
  "TARGET_RADIUS = 20"

definition INDEX_FINGER_TIP :: nat where
  "INDEX_FINGER_TIP = 8"

text \<open>
  A frame of the hand tool: the image size and the detector's answer
  \<^verbatim>\<open>results.multi_hand_landmarks\<close> (empty when no hand is found).
\<close>

record hand_frame =
  hand_w :: int
  hand_h :: int
  multi_hand_landmarks :: "landmarks list"

text \<open>
  The fields of \<^verbatim>\<open>DexterityTransformer\<close> together with the Trajectory Buffer
  \<^verbatim>\<open>st.session_state.points\<close>.  \<^verbatim>\<open>time.time()\<close> is an argument \<open>now\<close> of every
  operation that reads the clock.
\<close>

record dexterity_state =
  dex_task :: string
  start_time :: "real option"
  tracking :: bool
  points :: "point list"

text \<open>What \<^verbatim>\<open>transform\<close> draws on the frame.\<close>

datatype drawing =
    TargetOutline
  | FingertipDot point
  | TargetFilledGreen
  | TargetFilledRed
  | HandSkeleton

subsection \<open>The transformer\<close>

definition set_task_dex :: "dexterity_state \<Rightarrow> string \<Rightarrow> real \<Rightarrow> dexterity_state" where
  "set_task_dex st t now =
     (let st1 = st\<lparr>dex_task := t, tracking := (t = ''Hold Steady'')\<rparr>
      in if tracking st1 then st1\<lparr>points := [], start_time := Some now\<rparr>
         else st1\<lparr>start_time := None\<rparr>)"

text \<open>
  Line 49: \<^verbatim>\<open>self.start_time and (time.time() - self.start_time) > 10\<close>.  Both
  \<^verbatim>\<open>None\<close> and the float \<^verbatim>\<open>0.0\<close> are falsy.
\<close>

definition window_expired :: "real option \<Rightarrow> real \<Rightarrow> bool" where
  "window_expired t now =
     (case t of None \<Rightarrow> False | Some t0 \<Rightarrow> t0 \<noteq> 0 \<and> now - t0 > 10)"

text \<open>Lines 59-60: the fingertip of the first detected hand, in pixels.\<close>

definition fingertip :: "landmarks \<Rightarrow> hand_frame \<Rightarrow> point" where
  "fingertip hand frame =
     (let index_tip = hand INDEX_FINGER_TIP
      in (py_int (fst index_tip * real_of_int (hand_w frame)),
          py_int (snd index_tip * real_of_int (hand_h frame))))"

text \<open>The distance to the target centre, lines 70 and 132.\<close>

definition target_dist :: "point \<Rightarrow> real" where
  "target_dist p =
     sqrt (real_of_int ((fst p - fst TARGET_POS)\<^sup>2 + (snd p - snd TARGET_POS)\<^sup>2))"

definition transform_dex :: "dexterity_state \<Rightarrow> real \<Rightarrow> hand_frame \<Rightarrow> dexterity_state \<times> drawing list" where
  "transform_dex st now frame =
     (let d1 = (if dex_task st = ''Hold Steady'' then [TargetOutline] else []);
          st1 = (if dex_task st = ''Hold Steady'' \<and> window_expired (start_time st) now
                 then st\<lparr>tracking := False, dex_task := ''None'', start_time := None\<rparr>
                 else st)
      in case multi_hand_landmarks frame of
           [] \<Rightarrow> (st1, d1)
         | hand # _ \<Rightarrow>
             if tracking st1 then
               (let p = fingertip hand frame;
                    st2 = st1\<lparr>points := points st1 @ [p]\<rparr>;
                    d2 = (if dex_task st1 = ''Hold Steady''
                          then (if target_dist p \<le> real_of_int TARGET_RADIUS
                                then [TargetFilledGreen] else [TargetFilledRed])
                          else [])
                in (st2, d1 @ [FingertipDot p] @ d2))
             else (st1, d1 @ [HandSkeleton]))"

text \<open>The video pipeline calls \<^verbatim>\<open>transform\<close> once per frame, each at its own time.\<close>

fun transform_dex_all :: "dexterity_state \<Rightarrow> (real \<times> hand_frame) list \<Rightarrow> dexterity_state" where
  "transform_dex_all st [] = st"
| "transform_dex_all st ((now, f) # fs) = transform_dex_all (fst (transform_dex st now f)) fs"

subsection \<open>The page script \<^verbatim>\<open>run\<close>\<close>

text \<open>\<^verbatim>\<open>np.mean\<close> and \<^verbatim>\<open>np.std\<close> (the population standard deviation) of a sequence.\<close>

definition np_mean :: "real list \<Rightarrow> real" where
  "np_mean xs = sum_list xs / real (length xs)"

definition np_std :: "real list \<Rightarrow> real" where
  "np_std xs = sqrt (np_mean (map (\<lambda>x. \<bar>x - np_mean xs\<bar>\<^sup>2) xs))"

text \<open>
  Lines 127-129 and 132-133.  The buffer becomes a numpy array of 64-bit integers; pixel
  coordinates are far inside their range, so the arithmetic is that of \<open>int\<close>.
\<close>

definition steadiness_score :: "point list \<Rightarrow> real" where
  "steadiness_score pts =
     (let std_x = np_std (map (\<lambda>p. real_of_int (fst p)) pts);
          std_y = np_std (map (\<lambda>p. real_of_int (snd p)) pts)
      in np_mean [std_x, std_y])"

definition precision_score :: "point list \<Rightarrow> real" where
  "precision_score pts = np_mean (map target_dist pts)"

text \<open>
  The outcome of the "Analyze Results" button, lines 120-144: the warning, or the two
  metrics before they are formatted.  The path image is presentation only.
\<close>

datatype analysis = NoTrackingData | AnalysisResults real real

definition analyze_results :: "point list \<Rightarrow> analysis" where
  "analyze_results pts =
     (if pts = [] then NoTrackingData
      else AnalysisResults (steadiness_score pts) (precision_score pts))"

text \<open>
  One execution of the page script: the task chosen in the select box, whether
  \<^verbatim>\<open>ctx.video_transformer\<close> exists, and which button was pressed.
\<close>

record run_input =
  selected_task :: string
  video_transformer :: bool
  start_button :: bool
  analyze_button :: bool

definition run_dex :: "dexterity_state \<Rightarrow> run_input \<Rightarrow> real \<Rightarrow> dexterity_state \<times> analysis option" where
  "run_dex st inp now =
     (let st1 = (if video_transformer inp then
                   (let s = set_task_dex st (selected_task inp) now
                    in if start_button inp
                       then s\<lparr>tracking := True, start_time := Some now, points := []\<rparr>
                       else s)
                 else st)
      in (st1, if analyze_button inp then Some (analyze_results (points st1)) else None))"

section \<open>Dysarthria detector: \<^verbatim>\<open>src/projects/dysarthria.py\<close>\<close>

text \<open>
  The acoustic libraries are external.  For a given audio file each of the ten library
  calls of \<^verbatim>\<open>analyze_speech\<close> either raises an exception, of which only the text
  \<^verbatim>\<open>str(e)\<close> matters, or returns; a call that returns an opaque object returns \<open>()\<close>.
\<close>

record speech_calls =
  sound_load :: "string + unit"
  to_pitch :: "string + unit"
  pitch_mean :: "string + real"
  to_point_process :: "string + unit"
  jitter_local :: "string + real"
  shimmer_local :: "string + real"
  to_harmonicity :: "string + unit"
  harmonicity_mean :: "string + real"
  librosa_load :: "string + unit"
  onset_detect :: "string + real list"

text \<open>
  The returned dict: the five metrics (before formatting: mean pitch, jitter, shimmer,
  HNR, DDK rate) or the single key \<^verbatim>\<open>"Error"\<close>.
\<close>

datatype speech_result =
    SpeechMetrics real real real real real
  | SpeechError string

text \<open>Sequencing inside the \<^verbatim>\<open>try\<close> block: the first exception ends it.\<close>

definition and_then :: "string + 'a \<Rightarrow> ('a \<Rightarrow> string + 'b) \<Rightarrow> string + 'b" where
  "and_then r f = (case r of Inl e \<Rightarrow> Inl e | Inr v \<Rightarrow> f v)"

text \<open>\<^verbatim>\<open>p in s\<close> on strings: \<open>p\<close> occurs in \<open>s\<close>.\<close>

fun str_contains :: "string \<Rightarrow> string \<Rightarrow> bool" where
  "str_contains p [] = (p = [])"
| "str_contains p (c # cs) = (prefix p (c # cs) \<or> str_contains p cs)"

text \<open>
  Line 37.  The onsets are a numpy array of floats, whose division never raises.
\<close>

definition ddk_rate :: "real list \<Rightarrow> real" where
  "ddk_rate onsets =
     (if length onsets > 1
      then (real (length onsets) - 1) / (last onsets - hd onsets)
      else 0)"

definition try_body :: "speech_calls \<Rightarrow> string + speech_result" where
  "try_body c =
     and_then (sound_load c) (\<lambda>snd.
     and_then (to_pitch c) (\<lambda>pitch.
     and_then (pitch_mean c) (\<lambda>mean_pitch.
     and_then (to_point_process c) (\<lambda>point_process.
     and_then (jitter_local c) (\<lambda>j.
     and_then (shimmer_local c) (\<lambda>s.
     and_then (to_harmonicity c) (\<lambda>harmonicity.
     and_then (harmonicity_mean c) (\<lambda>hnr.
     and_then (librosa_load c) (\<lambda>y_sr.
     and_then (onset_detect c) (\<lambda>onsets.
       Inr (SpeechMetrics mean_pitch (j * 100) (s * 100) hnr (ddk_rate onsets))))))))))))"

definition pitch_message :: string where
  "pitch_message = ''Could not detect a clear pitch. Please record again, speaking clearly and avoiding background noise.''"

definition analyze_speech :: "speech_calls \<Rightarrow> speech_result" where
  "analyze_speech c =
     (case try_body c of
        Inr result \<Rightarrow> result
      | Inl e \<Rightarrow>
          if str_contains ''Pitch'' e then SpeechError pitch_message
          else SpeechError (''An error occurred: '' @ e))"

section \<open>Auxiliary notions and example inputs\<close>

subsection \<open>Faces\<close>

text \<open>
  A 640 x 480 frame whose detected face yields exactly the snapshot \<open>c\<close>: every snapshot
  is the snapshot of some frame.
\<close>

definition face_of :: "snapshot \<Rightarrow> landmarks" where
  "face_of c idx =
     (case find (\<lambda>n. FACIAL_LANDMARKS n = idx)
             [mouth_left, mouth_right, eyebrow_left, eyebrow_right, eye_top_left,
              eye_bottom_left, eye_top_right, eye_bottom_right, nose_tip] of
        None \<Rightarrow> (0, 0)
      | Some n \<Rightarrow> (real_of_int (fst (c n)) / 640, real_of_int (snd (c n)) / 480))"

definition frame_of :: "snapshot \<Rightarrow> video_frame" where
  "frame_of c = \<lparr>frame_w = 640, frame_h = 480, multi_face_landmarks = [face_of c]\<rparr>"

definition no_face_frame :: video_frame where
  "no_face_frame = \<lparr>frame_w = 640, frame_h = 480, multi_face_landmarks = []\<rparr>"

fun neutral_face :: snapshot where
  "neutral_face mouth_left = (100, 200)"
| "neutral_face mouth_right = (300, 200)"
| "neutral_face eyebrow_left = (120, 80)"
| "neutral_face eyebrow_right = (280, 80)"
| "neutral_face eye_top_left = (120, 100)"
| "neutral_face eye_bottom_left = (120, 110)"
| "neutral_face eye_top_right = (280, 100)"
| "neutral_face eye_bottom_right = (280, 110)"
| "neutral_face nose_tip = (200, 150)"

definition smile_face :: snapshot where
  "smile_face = neutral_face(mouth_left := (90, 200), mouth_right := (320, 200))"

definition one_sided_smile_face :: snapshot where
  "one_sided_smile_face = neutral_face(mouth_right := (320, 200))"

definition raised_brows_face :: snapshot where
  "raised_brows_face = neutral_face(eyebrow_left := (120, 70), eyebrow_right := (280, 60))"

subsection \<open>Hands\<close>

text \<open>The points a frame contributes to the buffer while tracking is on (lines 55-66).\<close>

definition detected :: "hand_frame \<Rightarrow> point list" where
  "detected frame =
     (case multi_hand_landmarks frame of
        [] \<Rightarrow> []
      | hand # _ \<Rightarrow> [fingertip hand frame])"

text \<open>A 640 x 480 frame with one hand whose index fingertip is at the pixel \<open>p\<close>.\<close>

definition hand_at :: "point \<Rightarrow> landmarks" where
  "hand_at p idx =
     (if idx = INDEX_FINGER_TIP then (real_of_int (fst p) / 640, real_of_int (snd p) / 480)
      else (0, 0))"

definition hand_frame_of :: "point \<Rightarrow> hand_frame" where
  "hand_frame_of p = \<lparr>hand_w = 640, hand_h = 480, multi_hand_landmarks = [hand_at p]\<rparr>"

text \<open>The transformer as constructed, with the empty buffer of a new session.\<close>

definition initial_dex :: dexterity_state where
  "initial_dex = \<lparr>dex_task = ''None'', start_time = None, tracking = False, points = []\<rparr>"

definition select_hold_steady :: run_input where
  "select_hold_steady =
     \<lparr>selected_task = ''Hold Steady'', video_transformer = True,
      start_button = False, analyze_button = False\<rparr>"

definition select_none :: run_input where
  "select_none =
     \<lparr>selected_task = ''None'', video_transformer = True,
      start_button = False, analyze_button = False\<rparr>"

definition press_start_none :: run_input where
  "press_start_none =
     \<lparr>selected_task = ''None'', video_transformer = True,
      start_button = True, analyze_button = False\<rparr>"

definition press_analyze_none :: run_input where
  "press_analyze_none =
     \<lparr>selected_task = ''None'', video_transformer = True,
      start_button = False, analyze_button = True\<rparr>"

text \<open>
  A session: "Hold Steady" is selected at time 100, one fingertip is seen at time 101,
  and the frame at time 111 closes the window.
\<close>

definition closed_session :: dexterity_state where
  "closed_session =
     fst (transform_dex
            (fst (transform_dex (fst (run_dex initial_dex select_hold_steady 100))
                    101 (hand_frame_of (300, 240))))
            111 (hand_frame_of (340, 240)))"

subsection \<open>Recordings\<close>

text \<open>
  The exception that leaves the \<^verbatim>\<open>try\<close> block: the text of the first of the ten calls,
  in the order of the source, that raises.
\<close>

definition exc_text :: "string + 'a \<Rightarrow> string list" where
  "exc_text r = (case r of Inl e \<Rightarrow> [e] | Inr _ \<Rightarrow> [])"

definition first_exception :: "speech_calls \<Rightarrow> string option" where
  "first_exception c =
     (case exc_text (sound_load c) @ exc_text (to_pitch c) @ exc_text (pitch_mean c)
           @ exc_text (to_point_process c) @ exc_text (jitter_local c)
           @ exc_text (shimmer_local c) @ exc_text (to_harmonicity c)
           @ exc_text (harmonicity_mean c) @ exc_text (librosa_load c)
           @ exc_text (onset_detect c) of
        [] \<Rightarrow> None
      | e # _ \<Rightarrow> Some e)"

text \<open>A recording on which every call returns, with three syllable onsets.\<close>

definition clear_recording :: speech_calls where
  "clear_recording =
     \<lparr>sound_load = Inr (), to_pitch = Inr (), pitch_mean = Inr 120,
      to_point_process = Inr (), jitter_local = Inr (1 / 100), shimmer_local = Inr (2 / 100),
      to_harmonicity = Inr (), harmonicity_mean = Inr 15, librosa_load = Inr (),
      onset_detect = Inr [1 / 2, 1, 3 / 2]\<rparr>"

section \<open>Properties of the facial nerve analyzer\<close>

subsection \<open>Auxiliary facts\<close>

lemma py_int_of_int: "py_int (real_of_int n) = n"
  by (simp add: py_int_def)

lemma frame_coords_frame_of: "frame_coords (face_of c) (frame_of c) = c"
proof
  fix n
  show "frame_coords (face_of c) (frame_of c) n = c n"
    by (cases n) (simp_all add: frame_coords_def frame_of_def face_of_def get_coords_def py_int_of_int)
qed

lemma faces_frame_of: "multi_face_landmarks (frame_of c) = face_of c # []"
  by (simp add: frame_of_def)

lemma symmetry_Inr: "max l r \<noteq> 0 \<Longrightarrow> symmetry l r = Inr (min l r / max l r * 100)"
  by (simp add: symmetry_def py_truediv_def)

lemma transform_no_face: "multi_face_landmarks frame = [] \<Longrightarrow> transform st frame = Inr (st, [])"
  by (simp add: transform_def)

lemma transform_scoring:
  "multi_face_landmarks frame = lms # rest \<Longrightarrow> task st \<noteq> ''Set Baseline'' \<Longrightarrow>
   transform st frame =
     (case baseline_coords st of
        None \<Rightarrow> Inr (st, [])
      | Some b \<Rightarrow> (case score_texts (task st) b (frame_coords lms frame) of
                     Inl e \<Rightarrow> Inl e | Inr txt \<Rightarrow> Inr (st, txt)))"
  by (simp add: transform_def Let_def split: option.splits sum.splits)

lemma transform_set_baseline:
  "multi_face_landmarks frame = lms # rest \<Longrightarrow> task st = ''Set Baseline'' \<Longrightarrow>
   transform st frame = Inr (st\<lparr>baseline_coords := Some (frame_coords lms frame)\<rparr>, [BaselineSetText])"
  by (simp add: transform_def Let_def score_texts_def)

lemma ratio_le: "0 < max l r \<Longrightarrow> min l r / max l r * 100 \<le> (100::real)"
  by (simp add: min_def max_def divide_le_eq split: if_splits)

lemma ratio_eq: "0 < max l r \<Longrightarrow> (min l r / max l r * 100 = (100::real)) = (l = r)"
  by (auto simp add: min_def max_def divide_simps split: if_splits)

lemma ratio_pos: "0 < max l r \<Longrightarrow> (0 < min l r / max l r * (100::real)) = (0 < l \<and> 0 < r)"
  by (auto simp add: min_def max_def zero_less_mult_iff zero_less_divide_iff split: if_splits)

lemma ratio_nonneg: "0 \<le> l \<Longrightarrow> 0 \<le> r \<Longrightarrow> 0 \<le> min l r / max l r * (100::real)"
  by (simp add: min_def max_def)

lemma ratio_lower: "0 < l + r \<Longrightarrow> - 100 < min l r / max l r * (100::real)"
proof -
  assume a: "0 < l + r"
  then have m: "0 < max l r" by (simp add: max_def split: if_splits)
  have "- max l r < min l r" using a by (simp add: min_def max_def split: if_splits)
  then have "- 1 < min l r / max l r" using m by (simp add: pos_less_divide_eq)
  then have "- 1 * 100 < min l r / max l r * 100" by (rule mult_strict_right_mono) simp
  then show ?thesis by (simp del: times_divide_eq_left)
qed

lemma get_dist_nonneg: "0 \<le> get_dist p q"
  by (simp add: get_dist_def)

lemma sqrt_100: "sqrt 100 = 10"
  using real_sqrt_abs[of 10] by simp

lemma neutral_eye_pair: "eye_pair neutral_face = (10, 10)"
  by (simp add: eye_pair_def get_dist_def sqrt_100)

subsection \<open>The worked Smile scenario\<close>

text \<open>
  Claim C7.  With a baseline whose mouth corners are at \<open>(100, 200)\<close> and \<open>(300, 200)\<close> and
  a frame whose snapshot has them at \<open>(90, 200)\<close> and \<open>(320, 200)\<close>, the Smile metric pair
  is \<open>left = 10\<close>, \<open>right = 20\<close> (whose sum 30 passes the 10 px threshold) and the frame
  shows exactly one text, the smile symmetry score 50.
\<close>

theorem smile_scenario:
  assumes "multi_face_landmarks frame = lms # rest" "task st = ''Smile''" "baseline_coords st = Some b"
    "b mouth_left = (100, 200)" "b mouth_right = (300, 200)"
    "frame_coords lms frame mouth_left = (90, 200)" "frame_coords lms frame mouth_right = (320, 200)"
  shows "smile_pair b (frame_coords lms frame) = (10, 20)
       \<and> transform st frame = Inr (st, [SmileSymmetryText 50])"
proof -
  have p: "smile_pair b (frame_coords lms frame) = (10, 20)"
    using assms by (simp add: smile_pair_def)
  have "score_texts ''Smile'' b (frame_coords lms frame) = Inr [SmileSymmetryText 50]"
    by (simp add: score_texts_def p symmetry_Inr)
  then show ?thesis using assms p by (simp add: transform_scoring)
qed

text \<open>The scenario is met by a concrete session and frame.\<close>

theorem smile_scenario_witness:
  "smile_pair neutral_face (frame_coords (face_of smile_face) (frame_of smile_face)) = (10, 20)
   \<and> transform \<lparr>task = ''Smile'', baseline_coords = Some neutral_face\<rparr> (frame_of smile_face)
     = Inr (\<lparr>task = ''Smile'', baseline_coords = Some neutral_face\<rparr>, [SmileSymmetryText 50])"
  using smile_scenario[of "frame_of smile_face" "face_of smile_face" "[]"
      "\<lparr>task = ''Smile'', baseline_coords = Some neutral_face\<rparr>" neutral_face]
  by (simp add: faces_frame_of frame_coords_frame_of smile_face_def)

subsection \<open>Range of the symmetry score\<close>

text \<open>
  Claim C1 says that a score that is shown lies in the half-open interval from 0
  (excluded) to 100.  It fails when one side has not moved: the baseline is the neutral
  face and in the frame only the right mouth corner has moved, by 20 px.  The pair
  \<open>(0, 20)\<close> passes the threshold and the score shown is 0.
\<close>

theorem zero_score_counterexample:
  "smile_pair neutral_face (frame_coords (face_of one_sided_smile_face) (frame_of one_sided_smile_face)) = (0, 20)
   \<and> transform \<lparr>task = ''Smile'', baseline_coords = Some neutral_face\<rparr> (frame_of one_sided_smile_face)
     = Inr (\<lparr>task = ''Smile'', baseline_coords = Some neutral_face\<rparr>, [SmileSymmetryText 0])"
proof -
  let ?c = "frame_coords (face_of one_sided_smile_face) (frame_of one_sided_smile_face)"
  have p: "smile_pair neutral_face ?c = (0, 20)"
    by (simp add: frame_coords_frame_of smile_pair_def one_sided_smile_face_def)
  have "score_texts ''Smile'' neutral_face ?c = Inr [SmileSymmetryText 0]"
    by (simp add: score_texts_def p symmetry_Inr)
  then have "transform \<lparr>task = ''Smile'', baseline_coords = Some neutral_face\<rparr> (frame_of one_sided_smile_face)
     = Inr (\<lparr>task = ''Smile'', baseline_coords = Some neutral_face\<rparr>, [SmileSymmetryText 0])"
    by (simp add: transform_scoring[OF faces_frame_of])
  with p show ?thesis by simp
qed

text \<open>
  Claim C1 as amended.  Whenever the Smile or Raise Eyebrows pair \<open>(left, right)\<close> of a
  frame passes the threshold, exactly one score \<open>s\<close> is shown, \<open>s \<le> 100\<close>, \<open>s = 100\<close> exactly
  when \<open>left = right\<close>, and \<open>s > 0\<close> exactly when both sides are positive.  The Smile score
  is never negative; the Raise Eyebrows score, whose sides are signed, is above \<open>-100\<close>.
\<close>

theorem symmetry_score_range:
  assumes "multi_face_landmarks frame = lms # rest" and "baseline_coords st = Some b"
  shows "(task st = ''Smile'' \<longrightarrow>
           (\<forall>l r. smile_pair b (frame_coords lms frame) = (l, r) \<and> l + r > 10 \<longrightarrow>
              (\<exists>s. transform st frame = Inr (st, [SmileSymmetryText s])
                 \<and> 0 \<le> s \<and> s \<le> 100 \<and> (s = 100 \<longleftrightarrow> l = r) \<and> (0 < s \<longleftrightarrow> 0 < l \<and> 0 < r))))
       \<and> (task st = ''Raise Eyebrows'' \<longrightarrow>
           (\<forall>l r. eyebrow_pair b (frame_coords lms frame) = (l, r) \<and> l + r > 5 \<longrightarrow>
              (\<exists>s. transform st frame = Inr (st, [EyebrowSymmetryText s])
                 \<and> - 100 < s \<and> s \<le> 100 \<and> (s = 100 \<longleftrightarrow> l = r) \<and> (0 < s \<longleftrightarrow> 0 < l \<and> 0 < r))))"
proof (intro conjI impI allI)
  fix l r :: int
  assume t: "task st = ''Smile''"
    and p: "smile_pair b (frame_coords lms frame) = (l, r) \<and> l + r > 10"
  let ?s = "min (real_of_int l) (real_of_int r) / max (real_of_int l) (real_of_int r) * 100"
  from p have nn: "0 \<le> l" "0 \<le> r" by (auto simp: smile_pair_def)
  with p have m: "0 < max (real_of_int l) (real_of_int r)" by (simp add: max_def)
  have "score_texts ''Smile'' b (frame_coords lms frame) = Inr [SmileSymmetryText ?s]"
    using p m by (simp add: score_texts_def symmetry_Inr)
  then have tr: "transform st frame = Inr (st, [SmileSymmetryText ?s])"
    using assms t by (simp add: transform_scoring)
  have "0 \<le> ?s" using nn by (intro ratio_nonneg) simp_all
  moreover have "?s \<le> 100" using m by (rule ratio_le)
  moreover have "(?s = 100) = (l = r)" using ratio_eq[OF m] by simp
  moreover have "(0 < ?s) = (0 < l \<and> 0 < r)" using ratio_pos[OF m] by simp
  ultimately show "\<exists>s. transform st frame = Inr (st, [SmileSymmetryText s])
                 \<and> 0 \<le> s \<and> s \<le> 100 \<and> (s = 100 \<longleftrightarrow> l = r) \<and> (0 < s \<longleftrightarrow> 0 < l \<and> 0 < r)"
    using tr by blast
next
  fix l r :: int
  assume t: "task st = ''Raise Eyebrows''"
    and p: "eyebrow_pair b (frame_coords lms frame) = (l, r) \<and> l + r > 5"
  let ?s = "min (real_of_int l) (real_of_int r) / max (real_of_int l) (real_of_int r) * 100"
  from p have sum: "0 < real_of_int l + real_of_int r" by linarith
  then have m: "0 < max (real_of_int l) (real_of_int r)" by (simp add: max_def split: if_splits)
  have "score_texts ''Raise Eyebrows'' b (frame_coords lms frame) = Inr [EyebrowSymmetryText ?s]"
    using p m by (simp add: score_texts_def symmetry_Inr)
  then have tr: "transform st frame = Inr (st, [EyebrowSymmetryText ?s])"
    using assms t by (simp add: transform_scoring)
  have "- 100 < ?s" using sum by (rule ratio_lower)
  moreover have "?s \<le> 100" using m by (rule ratio_le)
  moreover have "(?s = 100) = (l = r)" using ratio_eq[OF m] by simp
  moreover have "(0 < ?s) = (0 < l \<and> 0 < r)" using ratio_pos[OF m] by simp
  ultimately show "\<exists>s. transform st frame = Inr (st, [EyebrowSymmetryText s])
                 \<and> - 100 < s \<and> s \<le> 100 \<and> (s = 100 \<longleftrightarrow> l = r) \<and> (0 < s \<longleftrightarrow> 0 < l \<and> 0 < r)"
    using tr by blast
qed

text \<open>Both halves at concrete frames: pairs \<open>(10, 20)\<close> for the mouth and for the eyebrows.\<close>

theorem symmetry_score_range_witness:
  "(\<exists>s. transform \<lparr>task = ''Smile'', baseline_coords = Some neutral_face\<rparr> (frame_of smile_face)
          = Inr (\<lparr>task = ''Smile'', baseline_coords = Some neutral_face\<rparr>, [SmileSymmetryText s])
        \<and> 0 < s \<and> s < 100)
   \<and> (\<exists>s. transform \<lparr>task = ''Raise Eyebrows'', baseline_coords = Some neutral_face\<rparr> (frame_of raised_brows_face)
          = Inr (\<lparr>task = ''Raise Eyebrows'', baseline_coords = Some neutral_face\<rparr>, [EyebrowSymmetryText s])
        \<and> 0 < s \<and> s < 100)"
proof -
  have a: "smile_pair neutral_face (frame_coords (face_of smile_face) (frame_of smile_face)) = (10, 20)"
    by (simp add: frame_coords_frame_of smile_pair_def smile_face_def)
  have b: "eyebrow_pair neutral_face (frame_coords (face_of raised_brows_face) (frame_of raised_brows_face)) = (10, 20)"
    by (simp add: frame_coords_frame_of eyebrow_pair_def raised_brows_face_def)
  show ?thesis
    using symmetry_score_range[OF faces_frame_of, of "\<lparr>task = ''Smile'', baseline_coords = Some neutral_face\<rparr>" neutral_face smile_face]
      symmetry_score_range[OF faces_frame_of, of "\<lparr>task = ''Raise Eyebrows'', baseline_coords = Some neutral_face\<rparr>" neutral_face raised_brows_face]
      a b
    by (simp add: less_le) blast
qed

subsection \<open>Scoring without a baseline\<close>

text \<open>
  Claim C2 says that a scoring task with an empty Baseline Store reports "no baseline".
  It does not: with the task Smile, no baseline and a detected face, \<^verbatim>\<open>transform\<close> returns
  normally and puts no text at all on the frame.
\<close>

theorem no_baseline_counterexample:
  "transform \<lparr>task = ''Smile'', baseline_coords = None\<rparr> (frame_of smile_face)
     = Inr (\<lparr>task = ''Smile'', baseline_coords = None\<rparr>, [])"
  by (simp add: transform_scoring[OF faces_frame_of])

text \<open>
  Claim C2 as amended.  For every frame in which Smile, Raise Eyebrows or Close Eyes
  Tightly is active while the Baseline Store is empty, no score and no message is shown,
  no exception is raised and the state is unchanged.
\<close>

theorem no_baseline_silent:
  assumes "task st = ''Smile'' \<or> task st = ''Raise Eyebrows'' \<or> task st = ''Close Eyes Tightly''"
    and "baseline_coords st = None"
  shows "transform st frame = Inr (st, [])"
proof (cases "multi_face_landmarks frame")
  case Nil
  then show ?thesis by (rule transform_no_face)
next
  case (Cons lms rest)
  have "task st \<noteq> ''Set Baseline''" using assms(1) by auto
  then show ?thesis using assms(2) by (simp add: transform_scoring[OF Cons])
qed

text \<open>An instance with the task Raise Eyebrows.\<close>

theorem no_baseline_silent_witness:
  "transform \<lparr>task = ''Raise Eyebrows'', baseline_coords = None\<rparr> (frame_of raised_brows_face)
     = Inr (\<lparr>task = ''Raise Eyebrows'', baseline_coords = None\<rparr>, [])"
  using no_baseline_silent[of "\<lparr>task = ''Raise Eyebrows'', baseline_coords = None\<rparr>" "frame_of raised_brows_face"]
  by simp

subsection \<open>The noise thresholds\<close>

text \<open>
  Claim C6 says that Close Eyes Tightly shows a symmetry score when the two eyelid gaps
  have a positive sum.  With gaps \<open>(10, 10)\<close> the frame shows the header and the two raw
  gaps, and no symmetry score.
\<close>

theorem close_eyes_counterexample:
  "eye_pair (frame_coords (face_of neutral_face) (frame_of neutral_face)) = (10, 10)
   \<and> transform \<lparr>task = ''Close Eyes Tightly'', baseline_coords = Some neutral_face\<rparr> (frame_of neutral_face)
     = Inr (\<lparr>task = ''Close Eyes Tightly'', baseline_coords = Some neutral_face\<rparr>,
            [EyeClosureHeaderText, EyeClosureText 10 10])"
proof -
  have "score_texts ''Close Eyes Tightly'' neutral_face (frame_coords (face_of neutral_face) (frame_of neutral_face))
      = Inr [EyeClosureHeaderText, EyeClosureText 10 10]"
    by (simp add: score_texts_def frame_coords_frame_of neutral_eye_pair symmetry_Inr)
  then show ?thesis
    by (simp add: transform_scoring[OF faces_frame_of] frame_coords_frame_of neutral_eye_pair)
qed

text \<open>
  Claim C6 as amended.  For every frame with a detected face and a present baseline:
  Smile shows its symmetry score exactly when \<open>left + right > 10\<close>, Raise Eyebrows exactly
  when \<open>left + right > 5\<close>, and Close Eyes Tightly shows the header and the raw gaps (not a
  symmetry score) exactly when \<open>left + right > 0\<close>.  Otherwise nothing is shown.  In no case
  is an exception raised or the state changed.
\<close>

theorem score_emitted_iff_threshold:
  assumes "multi_face_landmarks frame = lms # rest" and "baseline_coords st = Some b"
  shows "(task st = ''Smile'' \<longrightarrow>
            transform st frame = Inr (st,
              case smile_pair b (frame_coords lms frame) of (l, r) \<Rightarrow>
                if l + r > 10
                then [SmileSymmetryText (min (real_of_int l) (real_of_int r) / max (real_of_int l) (real_of_int r) * 100)]
                else []))
       \<and> (task st = ''Raise Eyebrows'' \<longrightarrow>
            transform st frame = Inr (st,
              case eyebrow_pair b (frame_coords lms frame) of (l, r) \<Rightarrow>
                if l + r > 5
                then [EyebrowSymmetryText (min (real_of_int l) (real_of_int r) / max (real_of_int l) (real_of_int r) * 100)]
                else []))
       \<and> (task st = ''Close Eyes Tightly'' \<longrightarrow>
            transform st frame = Inr (st,
              case eye_pair (frame_coords lms frame) of (l, r) \<Rightarrow>
                if l + r > 0 then [EyeClosureHeaderText, EyeClosureText l r] else []))"
proof (intro conjI impI)
  assume t: "task st = ''Smile''"
  obtain l r where p: "smile_pair b (frame_coords lms frame) = (l, r)" by (cases "smile_pair b (frame_coords lms frame)")
  then have nn: "0 \<le> l" "0 \<le> r" by (auto simp: smile_pair_def)
  then have "l + r > 10 \<Longrightarrow> max (real_of_int l) (real_of_int r) \<noteq> 0" by (simp add: max_def)
  then have "score_texts ''Smile'' b (frame_coords lms frame) =
      Inr (if l + r > 10
           then [SmileSymmetryText (min (real_of_int l) (real_of_int r) / max (real_of_int l) (real_of_int r) * 100)]
           else [])"
    by (simp add: score_texts_def p symmetry_Inr)
  then show "transform st frame = Inr (st,
              case smile_pair b (frame_coords lms frame) of (l, r) \<Rightarrow>
                if l + r > 10
                then [SmileSymmetryText (min (real_of_int l) (real_of_int r) / max (real_of_int l) (real_of_int r) * 100)]
                else [])"
    using assms t p by (simp add: transform_scoring)
next
  assume t: "task st = ''Raise Eyebrows''"
  obtain l r where p: "eyebrow_pair b (frame_coords lms frame) = (l, r)" by (cases "eyebrow_pair b (frame_coords lms frame)")
  have "l + r > 5 \<Longrightarrow> max (real_of_int l) (real_of_int r) \<noteq> 0" by (simp add: max_def)
  then have "score_texts ''Raise Eyebrows'' b (frame_coords lms frame) =
      Inr (if l + r > 5
           then [EyebrowSymmetryText (min (real_of_int l) (real_of_int r) / max (real_of_int l) (real_of_int r) * 100)]
           else [])"
    by (simp add: score_texts_def p symmetry_Inr)
  then show "transform st frame = Inr (st,
              case eyebrow_pair b (frame_coords lms frame) of (l, r) \<Rightarrow>
                if l + r > 5
                then [EyebrowSymmetryText (min (real_of_int l) (real_of_int r) / max (real_of_int l) (real_of_int r) * 100)]
                else [])"
    using assms t p by (simp add: transform_scoring)
next
  assume t: "task st = ''Close Eyes Tightly''"
  obtain l r where p: "eye_pair (frame_coords lms frame) = (l, r)" by (cases "eye_pair (frame_coords lms frame)")
  then have nn: "0 \<le> l" "0 \<le> r" by (auto simp: eye_pair_def get_dist_nonneg)
  then have "l + r > 0 \<Longrightarrow> max l r \<noteq> 0" by (simp add: max_def)
  then have "score_texts ''Close Eyes Tightly'' b (frame_coords lms frame) =
      Inr (if l + r > 0 then [EyeClosureHeaderText, EyeClosureText l r] else [])"
    by (simp add: score_texts_def p symmetry_Inr)
  then show "transform st frame = Inr (st,
              case eye_pair (frame_coords lms frame) of (l, r) \<Rightarrow>
                if l + r > 0 then [EyeClosureHeaderText, EyeClosureText l r] else [])"
    using assms t p by (simp add: transform_scoring)
qed


text \<open>One frame per task: above the threshold, below it, and the eyelid gaps.\<close>

theorem score_emitted_iff_threshold_witness:
  "transform \<lparr>task = ''Smile'', baseline_coords = Some neutral_face\<rparr> (frame_of smile_face)
     = Inr (\<lparr>task = ''Smile'', baseline_coords = Some neutral_face\<rparr>, [SmileSymmetryText 50])
   \<and> transform \<lparr>task = ''Raise Eyebrows'', baseline_coords = Some neutral_face\<rparr> (frame_of neutral_face)
     = Inr (\<lparr>task = ''Raise Eyebrows'', baseline_coords = Some neutral_face\<rparr>, [])
   \<and> transform \<lparr>task = ''Close Eyes Tightly'', baseline_coords = Some neutral_face\<rparr> (frame_of smile_face)
     = Inr (\<lparr>task = ''Close Eyes Tightly'', baseline_coords = Some neutral_face\<rparr>,
            [EyeClosureHeaderText, EyeClosureText 10 10])"
proof -
  have a: "smile_pair neutral_face smile_face = (10, 20)"
    by (simp add: smile_pair_def smile_face_def)
  have b: "eyebrow_pair neutral_face neutral_face = (0, 0)"
    by (simp add: eyebrow_pair_def)
  have c: "eye_pair smile_face = (10, 10)"
    by (simp add: eye_pair_def smile_face_def get_dist_def sqrt_100)
  show ?thesis
    using score_emitted_iff_threshold[OF faces_frame_of, of "\<lparr>task = ''Smile'', baseline_coords = Some neutral_face\<rparr>" neutral_face smile_face]
      score_emitted_iff_threshold[OF faces_frame_of, of "\<lparr>task = ''Raise Eyebrows'', baseline_coords = Some neutral_face\<rparr>" neutral_face neutral_face]
      score_emitted_iff_threshold[OF faces_frame_of, of "\<lparr>task = ''Close Eyes Tightly'', baseline_coords = Some neutral_face\<rparr>" neutral_face smile_face]
    by (simp add: frame_coords_frame_of a b c)
qed

subsection \<open>The baseline life cycle\<close>

lemma transform_all_no_face:
  "\<forall>g \<in> set fs. multi_face_landmarks g = [] \<Longrightarrow> transform_all st (fs @ rest) = transform_all st rest"
  by (induction fs) (simp_all add: transform_no_face)

lemma set_task_baseline: "set_task st ''Set Baseline'' = \<lparr>task = ''Set Baseline'', baseline_coords = None\<rparr>"
  by (simp add: set_task_def)

text \<open>
  Claim C8.  From every state, selecting "Set Baseline" empties the Baseline Store.  It
  stays empty over any frames without a face, and the next frame with a face sets it to
  exactly that frame's snapshot, whatever it held before the selection.
\<close>

theorem set_baseline_lifecycle:
  "baseline_coords (set_task st ''Set Baseline'') = None
   \<and> (\<forall>(fs :: video_frame list) (f :: video_frame) lms rest.
        (\<forall>g \<in> set fs. multi_face_landmarks g = []) \<and> multi_face_landmarks f = lms # rest \<longrightarrow>
          transform_all (set_task st ''Set Baseline'') fs = Inr (set_task st ''Set Baseline'')
        \<and> transform_all (set_task st ''Set Baseline'') (fs @ [f])
            = Inr \<lparr>task = ''Set Baseline'', baseline_coords = Some (frame_coords lms f)\<rparr>)"
proof (intro conjI allI impI)
  show "baseline_coords (set_task st ''Set Baseline'') = None"
    by (simp add: set_task_baseline)
next
  fix fs :: "video_frame list" and f :: video_frame and lms rest
  assume a: "(\<forall>g \<in> set fs. multi_face_landmarks g = []) \<and> multi_face_landmarks f = lms # rest"
  then have nf: "\<forall>g \<in> set fs. multi_face_landmarks g = []" by simp
  show "transform_all (set_task st ''Set Baseline'') fs = Inr (set_task st ''Set Baseline'')"
    using transform_all_no_face[OF nf, of _ "[]"] by simp
  have "transform (set_task st ''Set Baseline'') f
          = Inr (\<lparr>task = ''Set Baseline'', baseline_coords = Some (frame_coords lms f)\<rparr>, [BaselineSetText])"
    using a by (simp add: transform_set_baseline[of f lms rest] set_task_baseline)
  then show "transform_all (set_task st ''Set Baseline'') (fs @ [f])
            = Inr \<lparr>task = ''Set Baseline'', baseline_coords = Some (frame_coords lms f)\<rparr>"
    by (simp add: transform_all_no_face[OF nf])
qed

text \<open>A session that had a baseline, one frame without a face, then a smiling face.\<close>

theorem set_baseline_lifecycle_witness:
  "transform_all (set_task \<lparr>task = ''Smile'', baseline_coords = Some neutral_face\<rparr> ''Set Baseline'')
      [no_face_frame, frame_of smile_face]
     = Inr \<lparr>task = ''Set Baseline'', baseline_coords = Some smile_face\<rparr>"
proof -
  have h: "(\<forall>g \<in> set [no_face_frame]. multi_face_landmarks g = [])
         \<and> multi_face_landmarks (frame_of smile_face) = face_of smile_face # []"
    by (simp add: no_face_frame_def faces_frame_of)
  from set_baseline_lifecycle[of "\<lparr>task = ''Smile'', baseline_coords = Some neutral_face\<rparr>"]
  have "transform_all (set_task \<lparr>task = ''Smile'', baseline_coords = Some neutral_face\<rparr> ''Set Baseline'')
          ([no_face_frame] @ [frame_of smile_face])
        = Inr \<lparr>task = ''Set Baseline'',
               baseline_coords = Some (frame_coords (face_of smile_face) (frame_of smile_face))\<rparr>"
    using h by blast
  then show ?thesis by (simp only: frame_coords_frame_of append.simps)
qed

section \<open>Properties of the dexterity analyzer\<close>

subsection \<open>One frame\<close>

lemma fingertip_hand_at: "fingertip (hand_at p) (hand_frame_of p) = p"
  by (simp add: fingertip_def hand_at_def hand_frame_of_def py_int_of_int)

lemma detected_hand_frame_of: "detected (hand_frame_of p) = [p]"
  using fingertip_hand_at[of p] by (simp add: detected_def hand_frame_of_def)

lemma transform_dex_closed:
  "\<not> tracking st \<Longrightarrow>
   points (fst (transform_dex st now frame)) = points st \<and> \<not> tracking (fst (transform_dex st now frame))"
  by (simp add: transform_dex_def Let_def split: list.splits)

lemma transform_dex_expired:
  "dex_task st = ''Hold Steady'' \<Longrightarrow> window_expired (start_time st) now \<Longrightarrow>
   fst (transform_dex st now frame) = st\<lparr>tracking := False, dex_task := ''None'', start_time := None\<rparr>"
  by (simp add: transform_dex_def Let_def split: list.splits)

lemma transform_dex_open:
  "tracking st \<Longrightarrow> \<not> (dex_task st = ''Hold Steady'' \<and> window_expired (start_time st) now) \<Longrightarrow>
   fst (transform_dex st now frame) = st\<lparr>points := points st @ detected frame\<rparr>"
  by (auto simp add: transform_dex_def Let_def detected_def split: list.splits)

lemma transform_dex_idle:
  "\<not> tracking st \<Longrightarrow> dex_task st \<noteq> ''Hold Steady'' \<Longrightarrow> fst (transform_dex st now frame) = st"
  by (simp add: transform_dex_def Let_def split: list.splits)

lemma window_expired_iff:
  "window_expired t now \<longleftrightarrow> (\<exists>t0. t = Some t0 \<and> t0 \<noteq> 0 \<and> now - t0 > 10)"
  by (simp add: window_expired_def split: option.splits)

subsection \<open>Tracking outside the Hold Steady task\<close>

text \<open>
  Claim C9.  The 10-second check is made only under the task "Hold Steady".  When
  tracking is on under any other task, every frame, whatever its time, leaves tracking
  on, the task and the start time as they are, and appends its fingertip (if a hand is
  detected) to the buffer: the window never closes by itself.
\<close>

theorem off_task_tracking_never_closes:
  "dex_task st \<noteq> ''Hold Steady'' \<Longrightarrow> tracking st \<Longrightarrow>
   transform_dex_all st frames = st\<lparr>points := points st @ concat (map (\<lambda>(now, f). detected f) frames)\<rparr>"
proof (induction frames arbitrary: st)
  case Nil
  then show ?case by simp
next
  case (Cons a frames)
  obtain now f where a: "a = (now, f)" by (cases a)
  let ?st1 = "st\<lparr>points := points st @ detected f\<rparr>"
  have step: "fst (transform_dex st now f) = ?st1"
    using Cons.prems by (simp add: transform_dex_open)
  have "transform_dex_all ?st1 frames
        = ?st1\<lparr>points := points ?st1 @ concat (map (\<lambda>(now, f). detected f) frames)\<rparr>"
    using Cons.prems by (intro Cons.IH) simp_all
  then show ?case by (simp add: a step)
qed

text \<open>
  The Start button pressed at time 100 while the select box shows "None"; a frame at
  time 100000 is still recorded.
\<close>

theorem off_task_tracking_never_closes_witness:
  "transform_dex_all (fst (run_dex initial_dex press_start_none 100))
      [(105, hand_frame_of (300, 240)), (100000, hand_frame_of (340, 240))]
   = \<lparr>dex_task = ''None'', start_time = Some 100, tracking = True,
      points = [(300, 240), (340, 240)]\<rparr>"
proof -
  have s: "fst (run_dex initial_dex press_start_none 100)
      = \<lparr>dex_task = ''None'', start_time = Some 100, tracking = True, points = []\<rparr>"
    by (simp add: run_dex_def initial_dex_def press_start_none_def set_task_dex_def Let_def)
  show ?thesis
    using off_task_tracking_never_closes[of "\<lparr>dex_task = ''None'', start_time = Some 100, tracking = True, points = []\<rparr>"
        "[(105, hand_frame_of (300, 240)), (100000, hand_frame_of (340, 240))]"]
    by (simp add: s detected_hand_frame_of del: transform_dex_all.simps)
qed

subsection \<open>The capture window\<close>

text \<open>
  Claim C4 says that a frame with \<open>now - t_start \<ge> 10\<close> closes the window and is not
  recorded.  At exactly 10 seconds it is recorded and the window stays open: the
  capture starts at time 100 and the frame comes at time 110.
\<close>

theorem boundary_frame_counterexample:
  "(110::real) - 100 \<ge> 10
   \<and> fst (transform_dex (fst (run_dex initial_dex select_hold_steady 100)) 110 (hand_frame_of (300, 240)))
     = \<lparr>dex_task = ''Hold Steady'', start_time = Some 100, tracking = True, points = [(300, 240)]\<rparr>"
proof -
  have s: "fst (run_dex initial_dex select_hold_steady 100)
      = \<lparr>dex_task = ''Hold Steady'', start_time = Some 100, tracking = True, points = []\<rparr>"
    by (simp add: run_dex_def initial_dex_def select_hold_steady_def set_task_dex_def Let_def)
  show ?thesis
    by (simp add: s transform_dex_open window_expired_def detected_hand_frame_of)
qed

text \<open>
  Claim C4 as amended.  For every frame: while tracking is off the buffer is unchanged and
  tracking stays off, and if moreover the task is not "Hold Steady" the state is
  unchanged (closing is idempotent).  If the task is "Hold Steady" and the start time is
  set (and not the float zero) with \<open>now - start_time > 10\<close>, strictly, the window closes:
  tracking off, task "None", no start time, and the frame's point is not appended.
  Otherwise, while tracking is on, the fingertip of a detected hand is appended and
  nothing else changes.
\<close>

theorem on_frame_cases:
  "(\<not> tracking st \<longrightarrow>
      points (fst (transform_dex st now frame)) = points st
      \<and> \<not> tracking (fst (transform_dex st now frame)))
   \<and> (\<not> tracking st \<and> dex_task st \<noteq> ''Hold Steady'' \<longrightarrow> fst (transform_dex st now frame) = st)
   \<and> (dex_task st = ''Hold Steady'' \<and> (\<exists>t0. start_time st = Some t0 \<and> t0 \<noteq> 0 \<and> now - t0 > 10) \<longrightarrow>
        fst (transform_dex st now frame)
          = st\<lparr>tracking := False, dex_task := ''None'', start_time := None\<rparr>)
   \<and> (tracking st \<and> \<not> (dex_task st = ''Hold Steady'' \<and> (\<exists>t0. start_time st = Some t0 \<and> t0 \<noteq> 0 \<and> now - t0 > 10)) \<longrightarrow>
        fst (transform_dex st now frame) = st\<lparr>points := points st @ detected frame\<rparr>)"
  using transform_dex_closed[of st now frame] transform_dex_idle[of st now frame]
    transform_dex_expired[of st now frame] transform_dex_open[of st now frame]
  unfolding window_expired_iff by blast


text \<open>A frame on a closed window, a frame after 11 seconds and a frame after 5 seconds.\<close>

theorem on_frame_cases_witness:
  "fst (transform_dex initial_dex 5 (hand_frame_of (300, 240))) = initial_dex
   \<and> fst (transform_dex \<lparr>dex_task = ''Hold Steady'', start_time = Some 100, tracking = True, points = []\<rparr>
            111 (hand_frame_of (300, 240)))
       = \<lparr>dex_task = ''None'', start_time = None, tracking = False, points = []\<rparr>
   \<and> fst (transform_dex \<lparr>dex_task = ''Hold Steady'', start_time = Some 100, tracking = True, points = []\<rparr>
            105 (hand_frame_of (300, 240)))
       = \<lparr>dex_task = ''Hold Steady'', start_time = Some 100, tracking = True, points = [(300, 240)]\<rparr>"
  using on_frame_cases[of initial_dex 5 "hand_frame_of (300, 240)"]
    on_frame_cases[of "\<lparr>dex_task = ''Hold Steady'', start_time = Some 100, tracking = True, points = []\<rparr>"
      111 "hand_frame_of (300, 240)"]
    on_frame_cases[of "\<lparr>dex_task = ''Hold Steady'', start_time = Some 100, tracking = True, points = []\<rparr>"
      105 "hand_frame_of (300, 240)"]
  by (simp add: initial_dex_def detected_hand_frame_of)

subsection \<open>Batch statistics\<close>

lemma np_mean_nonneg: "(\<And>x. x \<in> set xs \<Longrightarrow> 0 \<le> x) \<Longrightarrow> 0 \<le> np_mean xs"
  by (simp add: np_mean_def sum_list_nonneg)

lemma np_mean_eq_0_iff:
  assumes "xs \<noteq> []" and "\<And>x. x \<in> set xs \<Longrightarrow> 0 \<le> x"
  shows "np_mean xs = 0 \<longleftrightarrow> (\<forall>x \<in> set xs. x = 0)"
proof -
  have "np_mean xs = 0 \<longleftrightarrow> sum_list xs = 0"
    using assms(1) by (simp add: np_mean_def)
  also have "\<dots> \<longleftrightarrow> (\<forall>x \<in> set xs. x = 0)"
    using assms(2) by (rule sum_list_nonneg_eq_0_iff)
  finally show ?thesis .
qed

lemma sum_list_const: "\<forall>x \<in> set xs. x = c \<Longrightarrow> sum_list xs = real (length xs) * c"
  by (induction xs) (simp_all add: algebra_simps)

lemma np_mean_const: "xs \<noteq> [] \<Longrightarrow> \<forall>x \<in> set xs. x = c \<Longrightarrow> np_mean xs = c"
  by (simp add: np_mean_def sum_list_const)

lemma np_std_nonneg: "0 \<le> np_std xs"
  unfolding np_std_def by (intro real_sqrt_ge_zero np_mean_nonneg) auto

lemma np_std_eq_0_iff:
  assumes "xs \<noteq> []"
  shows "np_std xs = 0 \<longleftrightarrow> (\<forall>x \<in> set xs. \<forall>y \<in> set xs. x = y)"
proof
  assume "np_std xs = 0"
  then have "np_mean (map (\<lambda>x. \<bar>x - np_mean xs\<bar>\<^sup>2) xs) = 0"
    by (simp add: np_std_def)
  then have "\<forall>v \<in> set (map (\<lambda>x. \<bar>x - np_mean xs\<bar>\<^sup>2) xs). v = 0"
    using assms by (subst (asm) np_mean_eq_0_iff) auto
  then have "\<forall>x \<in> set xs. x = np_mean xs" by simp
  then show "\<forall>x \<in> set xs. \<forall>y \<in> set xs. x = y" by metis
next
  assume eq: "\<forall>x \<in> set xs. \<forall>y \<in> set xs. x = y"
  from assms have "hd xs \<in> set xs" by simp
  with eq have c: "\<forall>x \<in> set xs. x = hd xs" by blast
  then have m: "np_mean xs = hd xs" using assms by (rule np_mean_const[rotated])
  have "\<forall>v \<in> set (map (\<lambda>x. \<bar>x - np_mean xs\<bar>\<^sup>2) xs). v = 0"
    using c by (simp add: m)
  then have "np_mean (map (\<lambda>x. \<bar>x - np_mean xs\<bar>\<^sup>2) xs) = 0"
    using assms by (subst np_mean_eq_0_iff) auto
  then show "np_std xs = 0" by (simp add: np_std_def)
qed

lemma target_dist_nonneg: "0 \<le> target_dist p"
  by (simp add: target_dist_def)

lemma target_dist_eq_0_iff: "target_dist p = 0 \<longleftrightarrow> p = TARGET_POS"
proof -
  have "target_dist p = 0 \<longleftrightarrow> (fst p - fst TARGET_POS)\<^sup>2 + (snd p - snd TARGET_POS)\<^sup>2 = 0"
    by (simp add: target_dist_def)
  also have "\<dots> \<longleftrightarrow> fst p = fst TARGET_POS \<and> snd p = snd TARGET_POS"
    by (simp add: sum_power2_eq_zero_iff)
  also have "\<dots> \<longleftrightarrow> p = TARGET_POS"
    by (simp add: prod_eq_iff)
  finally show ?thesis .
qed

lemma steadiness_score_eq:
  "steadiness_score pts =
     (np_std (map (\<lambda>p. real_of_int (fst p)) pts) + np_std (map (\<lambda>p. real_of_int (snd p)) pts)) / 2"
  by (simp add: steadiness_score_def np_mean_def Let_def)

text \<open>
  Claim C5.  For every non-empty buffer the analysis yields the steadiness
  \<open>mean(std(xs), std(ys))\<close> and the precision \<open>mean(distance to the target centre)\<close>; both
  are non-negative, the steadiness is 0 exactly when all points of the buffer are
  identical, and the precision is 0 exactly when every point is the target centre.
\<close>

theorem batch_statistics:
  assumes "pts \<noteq> []"
  shows "analyze_results pts = AnalysisResults (steadiness_score pts) (precision_score pts)
       \<and> 0 \<le> steadiness_score pts
       \<and> 0 \<le> precision_score pts
       \<and> (steadiness_score pts = 0 \<longleftrightarrow> (\<forall>p \<in> set pts. \<forall>q \<in> set pts. p = q))
       \<and> (precision_score pts = 0 \<longleftrightarrow> (\<forall>p \<in> set pts. p = TARGET_POS))"
proof (intro conjI)
  let ?xs = "map (\<lambda>p. real_of_int (fst p)) pts"
  let ?ys = "map (\<lambda>p. real_of_int (snd p)) pts"
  show "analyze_results pts = AnalysisResults (steadiness_score pts) (precision_score pts)"
    using assms by (simp add: analyze_results_def)
  show "0 \<le> steadiness_score pts"
    using np_std_nonneg[of ?xs] np_std_nonneg[of ?ys] by (simp add: steadiness_score_eq)
  show "0 \<le> precision_score pts"
    unfolding precision_score_def by (rule np_mean_nonneg) (auto simp: target_dist_nonneg)
  have "steadiness_score pts = 0 \<longleftrightarrow> np_std ?xs = 0 \<and> np_std ?ys = 0"
    using np_std_nonneg[of ?xs] np_std_nonneg[of ?ys] by (auto simp add: steadiness_score_eq)
  also have "\<dots> \<longleftrightarrow> (\<forall>x \<in> set ?xs. \<forall>y \<in> set ?xs. x = y) \<and> (\<forall>x \<in> set ?ys. \<forall>y \<in> set ?ys. x = y)"
    using assms by (simp only: np_std_eq_0_iff map_is_Nil_conv simp_thms)
  also have "\<dots> \<longleftrightarrow> (\<forall>p \<in> set pts. \<forall>q \<in> set pts. p = q)"
    by (auto simp add: prod_eq_iff)
  finally show "steadiness_score pts = 0 \<longleftrightarrow> (\<forall>p \<in> set pts. \<forall>q \<in> set pts. p = q)" .
  have "precision_score pts = 0 \<longleftrightarrow> (\<forall>d \<in> set (map target_dist pts). d = 0)"
    unfolding precision_score_def using assms
    by (intro np_mean_eq_0_iff) (auto simp: target_dist_nonneg)
  also have "\<dots> \<longleftrightarrow> (\<forall>p \<in> set pts. p = TARGET_POS)"
    by (simp add: target_dist_eq_0_iff)
  finally show "precision_score pts = 0 \<longleftrightarrow> (\<forall>p \<in> set pts. p = TARGET_POS)" .
qed

text \<open>Three points on the target centre.\<close>

theorem batch_statistics_witness:
  "analyze_results [(320, 240), (320, 240), (320, 240)] = AnalysisResults 0 0"
  using batch_statistics[of "[(320, 240), (320, 240), (320, 240)]"]
  by (simp add: TARGET_POS_def)


subsection \<open>The buffer after the window has closed\<close>

lemma sqrt_400: "sqrt 400 = 20"
  using real_sqrt_abs[of 20] by simp

lemma analyze_single: "analyze_results [(300, 240)] = AnalysisResults 0 20"
  by (simp add: analyze_results_def steadiness_score_def precision_score_def np_std_def np_mean_def
      target_dist_def TARGET_POS_def sqrt_400)

lemma closed_session_eq:
  "closed_session = \<lparr>dex_task = ''None'', start_time = None, tracking = False, points = [(300, 240)]\<rparr>"
proof -
  have s1: "fst (run_dex initial_dex select_hold_steady 100)
      = \<lparr>dex_task = ''Hold Steady'', start_time = Some 100, tracking = True, points = []\<rparr>"
    by (simp add: run_dex_def initial_dex_def select_hold_steady_def set_task_dex_def Let_def)
  have s2: "fst (transform_dex \<lparr>dex_task = ''Hold Steady'', start_time = Some 100, tracking = True, points = []\<rparr>
                  101 (hand_frame_of (300, 240)))
      = \<lparr>dex_task = ''Hold Steady'', start_time = Some 100, tracking = True, points = [(300, 240)]\<rparr>"
    by (simp add: transform_dex_open window_expired_def detected_hand_frame_of)
  have s3: "fst (transform_dex \<lparr>dex_task = ''Hold Steady'', start_time = Some 100, tracking = True, points = [(300, 240)]\<rparr>
                  111 (hand_frame_of (340, 240)))
      = \<lparr>dex_task = ''None'', start_time = None, tracking = False, points = [(300, 240)]\<rparr>"
    by (simp add: transform_dex_expired window_expired_def)
  show ?thesis by (simp add: closed_session_def s1 s2 s3)
qed

text \<open>
  Claim C3 says that closing the window invalidates the buffer, so that a later analysis
  cannot use the points collected before.  In the session below the window has closed
  and the point recorded before is still in the buffer; the operator then selects "None"
  and presses "Analyze Results", and the analysis is computed from that point.
\<close>

theorem stale_points_counterexample:
  "\<not> tracking closed_session
   \<and> points closed_session = [(300, 240)]
   \<and> snd (run_dex (fst (run_dex closed_session select_none 115)) press_analyze_none 120)
       = Some (AnalysisResults 0 20)"
  by (simp add: closed_session_eq run_dex_def select_none_def press_analyze_none_def
      set_task_dex_def Let_def analyze_single)

text \<open>
  Claim C3 as amended.  The frame that closes the window switches tracking off and leaves
  the buffer as it is.  An analysis made afterwards without a restart (the transformer
  is gone, or the select box is not on "Hold Steady" and the Start button is not
  pressed) is computed from exactly these points.  The buffer is emptied only when a
  capture starts: by selecting "Hold Steady" or by the Start button.
\<close>

theorem buffer_kept_on_close:
  assumes "dex_task st = ''Hold Steady''" and "start_time st = Some t0" and "t0 \<noteq> 0"
    and "now - t0 > 10"
  shows "points (fst (transform_dex st now frame)) = points st
       \<and> \<not> tracking (fst (transform_dex st now frame))
       \<and> (\<forall>inp now'.
            \<not> video_transformer inp \<or> (selected_task inp \<noteq> ''Hold Steady'' \<and> \<not> start_button inp) \<longrightarrow>
              points (fst (run_dex (fst (transform_dex st now frame)) inp now')) = points st
              \<and> (analyze_button inp \<longrightarrow>
                   snd (run_dex (fst (transform_dex st now frame)) inp now')
                     = Some (analyze_results (points st))))
       \<and> (\<forall>s inp t.
            video_transformer inp \<and> (selected_task inp = ''Hold Steady'' \<or> start_button inp) \<longrightarrow>
              points (fst (run_dex s inp t)) = [])"
proof -
  let ?closed = "st\<lparr>tracking := False, dex_task := ''None'', start_time := None\<rparr>"
  have e: "window_expired (start_time st) now"
    using assms by (simp add: window_expired_def)
  have c: "fst (transform_dex st now frame) = ?closed"
    using assms(1) e by (rule transform_dex_expired)
  have r: "\<And>inp now'.
            \<not> video_transformer inp \<or> (selected_task inp \<noteq> ''Hold Steady'' \<and> \<not> start_button inp) \<Longrightarrow>
              points (fst (run_dex ?closed inp now')) = points st
              \<and> (analyze_button inp \<longrightarrow>
                   snd (run_dex ?closed inp now') = Some (analyze_results (points st)))"
    by (auto simp add: run_dex_def set_task_dex_def Let_def)
  have k: "\<And>s inp t. video_transformer inp \<and> (selected_task inp = ''Hold Steady'' \<or> start_button inp) \<Longrightarrow>
              points (fst (run_dex s inp t)) = []"
    by (auto simp add: run_dex_def set_task_dex_def Let_def)
  show ?thesis using r k by (simp add: c)
qed

text \<open>The closing frame of the session above, followed by the analysis.\<close>

theorem buffer_kept_on_close_witness:
  "points (fst (transform_dex
      \<lparr>dex_task = ''Hold Steady'', start_time = Some 100, tracking = True, points = [(300, 240)]\<rparr>
      111 (hand_frame_of (340, 240)))) = [(300, 240)]
   \<and> snd (run_dex (fst (transform_dex
      \<lparr>dex_task = ''Hold Steady'', start_time = Some 100, tracking = True, points = [(300, 240)]\<rparr>
      111 (hand_frame_of (340, 240)))) press_analyze_none 120) = Some (AnalysisResults 0 20)"
proof -
  have h: "\<not> video_transformer press_analyze_none
         \<or> (selected_task press_analyze_none \<noteq> ''Hold Steady'' \<and> \<not> start_button press_analyze_none)"
    "analyze_button press_analyze_none"
    by (simp_all add: press_analyze_none_def)
  from buffer_kept_on_close[of "\<lparr>dex_task = ''Hold Steady'', start_time = Some 100, tracking = True, points = [(300, 240)]\<rparr>"
      100 111 "hand_frame_of (340, 240)"]
  show ?thesis using h by (simp add: analyze_single)
qed

section \<open>Properties of the dysarthria detector\<close>

text \<open>\<open>str_contains\<close> is the substring test.\<close>

lemma str_contains_iff: "str_contains p s \<longleftrightarrow> (\<exists>a b. s = a @ p @ b)"
proof (induction s)
  case Nil
  then show ?case by auto
next
  case (Cons c cs)
  show ?case
  proof
    assume "str_contains p (c # cs)"
    then consider "prefix p (c # cs)" | "str_contains p cs" by auto
    then show "\<exists>a b. c # cs = a @ p @ b"
    proof cases
      case 1
      then obtain b where "c # cs = p @ b" by (auto simp: prefix_def)
      then have "c # cs = [] @ p @ b" by simp
      then show ?thesis by blast
    next
      case 2
      then obtain a b where "cs = a @ p @ b" using Cons.IH by blast
      then have "c # cs = (c # a) @ p @ b" by simp
      then show ?thesis by blast
    qed
  next
    assume "\<exists>a b. c # cs = a @ p @ b"
    then obtain a b where ab: "c # cs = a @ p @ b" by blast
    show "str_contains p (c # cs)"
    proof (cases a)
      case Nil
      then have "prefix p (c # cs)" using ab by (simp add: prefix_def)
      then show ?thesis by simp
    next
      case (Cons x a')
      then have "cs = a' @ p @ b" using ab by simp
      then have "str_contains p cs" using Cons.IH by blast
      then show ?thesis by simp
    qed
  qed
qed

lemma ddk_rate_few: "length onsets < 2 \<Longrightarrow> ddk_rate onsets = 0"
  by (simp add: ddk_rate_def)

lemma try_body_cases:
  "try_body c =
     (case first_exception c of
        Some e \<Rightarrow> Inl e
      | None \<Rightarrow>
          Inr (SpeechMetrics (projr (pitch_mean c)) (projr (jitter_local c) * 100)
                 (projr (shimmer_local c) * 100) (projr (harmonicity_mean c))
                 (ddk_rate (projr (onset_detect c)))))"
  by (auto simp add: try_body_def first_exception_def and_then_def exc_text_def split: sum.splits)

text \<open>
  Claim C10.  \<^verbatim>\<open>analyze_speech\<close> always returns a dict.  If none of the library calls
  raises, it is the dict of the five metrics, whose DDK rate is 0 when fewer than two
  onsets were detected.  If a call raises, the dict has the key "Error": with the
  could-not-detect-pitch message when the text of the exception contains "Pitch", and
  with the generic message followed by the text otherwise.
\<close>

theorem analyze_speech_total:
  "(case first_exception c of
      None \<Rightarrow>
        (\<exists>mean_pitch j s hnr onsets.
           pitch_mean c = Inr mean_pitch \<and> jitter_local c = Inr j \<and> shimmer_local c = Inr s
           \<and> harmonicity_mean c = Inr hnr \<and> onset_detect c = Inr onsets
           \<and> analyze_speech c = SpeechMetrics mean_pitch (j * 100) (s * 100) hnr (ddk_rate onsets)
           \<and> (length onsets < 2 \<longrightarrow> ddk_rate onsets = 0))
    | Some e \<Rightarrow>
        analyze_speech c =
          SpeechError (if \<exists>a b. e = a @ ''Pitch'' @ b then pitch_message
                       else ''An error occurred: '' @ e))"
proof (cases "first_exception c")
  case None
  then have ok: "pitch_mean c = Inr (projr (pitch_mean c))" "jitter_local c = Inr (projr (jitter_local c))"
    "shimmer_local c = Inr (projr (shimmer_local c))" "harmonicity_mean c = Inr (projr (harmonicity_mean c))"
    "onset_detect c = Inr (projr (onset_detect c))"
    by (auto simp add: first_exception_def exc_text_def split: sum.splits list.splits)
  have "analyze_speech c = SpeechMetrics (projr (pitch_mean c)) (projr (jitter_local c) * 100)
                 (projr (shimmer_local c) * 100) (projr (harmonicity_mean c))
                 (ddk_rate (projr (onset_detect c)))"
    by (simp add: analyze_speech_def try_body_cases None)
  with ok show ?thesis using ddk_rate_few by (simp add: None) blast
next
  case (Some e)
  then show ?thesis
    by (simp add: analyze_speech_def try_body_cases str_contains_iff)
qed

text \<open>
  A clear recording, the same with a single onset, a failure of the pitch analysis and
  a failure to load the file.
\<close>

theorem analyze_speech_total_witness:
  "analyze_speech clear_recording = SpeechMetrics 120 1 2 15 2
   \<and> analyze_speech (clear_recording\<lparr>onset_detect := Inr [1 / 2]\<rparr>) = SpeechMetrics 120 1 2 15 0
   \<and> analyze_speech (clear_recording\<lparr>to_pitch := Inl ''Pitch analysis failed''\<rparr>) = SpeechError pitch_message
   \<and> analyze_speech (clear_recording\<lparr>librosa_load := Inl ''No such file''\<rparr>)
       = SpeechError ''An error occurred: No such file''"
proof (intro conjI)
  let ?c1 = clear_recording
  have "first_exception ?c1 = None"
    by (simp add: first_exception_def exc_text_def clear_recording_def)
  with analyze_speech_total[of ?c1]
  obtain mean_pitch j s hnr onsets where
    "pitch_mean ?c1 = Inr mean_pitch" "jitter_local ?c1 = Inr j" "shimmer_local ?c1 = Inr s"
    "harmonicity_mean ?c1 = Inr hnr" "onset_detect ?c1 = Inr onsets"
    "analyze_speech ?c1 = SpeechMetrics mean_pitch (j * 100) (s * 100) hnr (ddk_rate onsets)"
    by auto
  then show "analyze_speech ?c1 = SpeechMetrics 120 1 2 15 2"
    by (auto simp add: clear_recording_def ddk_rate_def)
next
  let ?c2 = "clear_recording\<lparr>onset_detect := Inr [1 / 2]\<rparr>"
  have "first_exception ?c2 = None"
    by (simp add: first_exception_def exc_text_def clear_recording_def)
  with analyze_speech_total[of ?c2]
  obtain mean_pitch j s hnr onsets where
    "pitch_mean ?c2 = Inr mean_pitch" "jitter_local ?c2 = Inr j" "shimmer_local ?c2 = Inr s"
    "harmonicity_mean ?c2 = Inr hnr" "onset_detect ?c2 = Inr onsets"
    "analyze_speech ?c2 = SpeechMetrics mean_pitch (j * 100) (s * 100) hnr (ddk_rate onsets)"
    "length onsets < 2 \<longrightarrow> ddk_rate onsets = 0"
    by auto
  then show "analyze_speech ?c2 = SpeechMetrics 120 1 2 15 0"
    by (auto simp add: clear_recording_def)
next
  let ?c3 = "clear_recording\<lparr>to_pitch := Inl ''Pitch analysis failed''\<rparr>"
  have f: "first_exception ?c3 = Some ''Pitch analysis failed''"
    by (simp add: first_exception_def exc_text_def clear_recording_def)
  have p: "\<exists>a b. ''Pitch analysis failed'' = a @ ''Pitch'' @ b"
    unfolding str_contains_iff[symmetric] by simp
  from analyze_speech_total[of ?c3] show "analyze_speech ?c3 = SpeechError pitch_message"
    by (simp only: f option.case p if_True)
next
  let ?c4 = "clear_recording\<lparr>librosa_load := Inl ''No such file''\<rparr>"
  have f: "first_exception ?c4 = Some ''No such file''"
    by (simp add: first_exception_def exc_text_def clear_recording_def)
  have q: "\<not> (\<exists>a b. ''No such file'' = a @ ''Pitch'' @ b)"
    unfolding str_contains_iff[symmetric] by simp
  from analyze_speech_total[of ?c4]
  have "analyze_speech ?c4 = SpeechError (''An error occurred: '' @ ''No such file'')"
    by (simp only: f option.case q if_False)
  then show "analyze_speech ?c4 = SpeechError ''An error occurred: No such file''"
    by simp
qed

end
